theory Spec2Isabelle
  imports Main
begin

section \<open>The rendered tree\<close>

text \<open>
  \<^verbatim>\<open>App.tsx\<close> builds a tree of JSX elements. Host elements (\<^verbatim>\<open>div\<close>, \<^verbatim>\<open>header\<close>,
  \<^verbatim>\<open>nav\<close>, \<^verbatim>\<open>main\<close>, \<^verbatim>\<open>h2\<close>) carry their tag and children, a \<^verbatim>\<open>Link\<close> carries its
  \<^verbatim>\<open>to\<close> target and children, and the four imported route trees are opaque
  components: the shell only mounts them.
\<close>

datatype component = UserAuthRoutes | ProjectsRoutes | TasksRoutes | ChatRoutes

datatype node =
    Elem string "node list"
  | Link string "node list"
  | Text string
  | Comp component

text \<open>The props of one \<^verbatim>\<open><Route path=... element=... />\<close>.\<close>

record route =
  path :: string
  element :: node

text \<open>
  The children of \<^verbatim>\<open><Routes>\<close> in \<^verbatim>\<open>AppLayout\<close>, in the order they are declared.
  The element of the last one is the \<^verbatim>\<open>h2\<close> heading written in place.
\<close>

definition welcomeHeading :: node where
  "welcomeHeading = Elem ''h2'' [Text ''Welcome to your Project Management App!'']"

definition routes :: "route list" where
  "routes =
    [\<lparr>path = ''/auth/*'', element = Comp UserAuthRoutes\<rparr>,
     \<lparr>path = ''/projects/*'', element = Comp ProjectsRoutes\<rparr>,
     \<lparr>path = ''/tasks/*'', element = Comp TasksRoutes\<rparr>,
     \<lparr>path = ''/chat/*'', element = Comp ChatRoutes\<rparr>,
     \<lparr>path = ''/'', element = welcomeHeading\<rparr>]"

section \<open>Route matching\<close>

text \<open>
  \<^verbatim>\<open>Routes\<close>, \<^verbatim>\<open>Route\<close> and \<^verbatim>\<open>Link\<close> are imported from \<^verbatim>\<open>react-router-dom\<close>; the
  library is not among the sources, and this section models what it does with
  the table of \<^verbatim>\<open>App.tsx\<close>, with the defaults the file leaves in place. A string
  is a list of bytes: \<^verbatim>\<open>location.pathname\<close> is ASCII as the browser serialises it,
  and decoded text is kept as its UTF-8 bytes.
\<close>

subsection \<open>Decoding the pathname\<close>

text \<open>
  Before matching, the router splits the pathname at its slashes, decodes each
  segment with \<^verbatim>\<open>decodeURIComponent\<close>, writes a decoded slash back as \<^verbatim>\<open>%2F\<close> and
  joins the segments again. \<^verbatim>\<open>decodeURIComponent\<close> throws on a \<^verbatim>\<open>%\<close> that is not
  followed by two hexadecimal digits and on escaped bytes that are not the
  UTF-8 encoding of a code point; the router then matches the pathname as it
  came.
\<close>

definition isSlash :: "char \<Rightarrow> bool" where
  "isSlash c = (c = CHR ''/'')"

fun splitSlash :: "string \<Rightarrow> string list" where
  "splitSlash [] = [[]]"
| "splitSlash (c # cs) =
     (if isSlash c then [] # splitSlash cs
      else (case splitSlash cs of [] \<Rightarrow> [[c]] | s # ss \<Rightarrow> (c # s) # ss))"

fun joinSlash :: "string list \<Rightarrow> string" where
  "joinSlash [] = []"
| "joinSlash [s] = s"
| "joinSlash (s # t # ss) = s @ CHR ''/'' # joinSlash (t # ss)"

definition hexDigit :: "char \<Rightarrow> nat option" where
  "hexDigit c =
     (let n = (of_char c :: nat) in
      if 48 \<le> n \<and> n \<le> 57 then Some (n - 48)
      else if 65 \<le> n \<and> n \<le> 70 then Some (n - 55)
      else if 97 \<le> n \<and> n \<le> 102 then Some (n - 87)
      else None)"

text \<open>
  A segment is read as literal characters and escapes \<^verbatim>\<open>%XX\<close>; an escape below
  128 is the character itself, and an escape from 128 on has to begin a
  well-formed sequence of two, three or four escaped bytes.
\<close>

datatype token = Lit char | Esc nat

fun tokens :: "string \<Rightarrow> token list option" where
  "tokens [] = Some []"
| "tokens (c # cs) =
     (if c = CHR ''%'' then
        (case cs of
           h1 # h2 # rest \<Rightarrow>
             (case (hexDigit h1, hexDigit h2) of
                (Some a, Some b) \<Rightarrow> map_option (Cons (Esc (16 * a + b))) (tokens rest)
              | _ \<Rightarrow> None)
         | _ \<Rightarrow> None)
      else map_option (Cons (Lit c)) (tokens cs))"

definition continuation :: "nat \<Rightarrow> bool" where
  "continuation b = (128 \<le> b \<and> b \<le> 191)"

definition second3 :: "nat \<Rightarrow> nat \<Rightarrow> bool" where
  "second3 b b1 =
     (if b = 224 then 160 \<le> b1 \<and> b1 \<le> 191
      else if b = 237 then 128 \<le> b1 \<and> b1 \<le> 159
      else continuation b1)"

definition second4 :: "nat \<Rightarrow> nat \<Rightarrow> bool" where
  "second4 b b1 =
     (if b = 240 then 144 \<le> b1 \<and> b1 \<le> 191
      else if b = 244 then 128 \<le> b1 \<and> b1 \<le> 143
      else continuation b1)"

fun utf8 :: "token list \<Rightarrow> string option" where
  "utf8 [] = Some []"
| "utf8 (Lit c # ts) = map_option (Cons c) (utf8 ts)"
| "utf8 (Esc b # ts) =
     (if b < 128 then map_option (Cons (char_of b)) (utf8 ts)
      else if 194 \<le> b \<and> b \<le> 223 then
        (case ts of
           Esc b1 # ts' \<Rightarrow>
             if continuation b1
             then map_option (\<lambda>s. char_of b # char_of b1 # s) (utf8 ts')
             else None
         | _ \<Rightarrow> None)
      else if 224 \<le> b \<and> b \<le> 239 then
        (case ts of
           Esc b1 # Esc b2 # ts' \<Rightarrow>
             if second3 b b1 \<and> continuation b2
             then map_option (\<lambda>s. char_of b # char_of b1 # char_of b2 # s) (utf8 ts')
             else None
         | _ \<Rightarrow> None)
      else if 240 \<le> b \<and> b \<le> 244 then
        (case ts of
           Esc b1 # Esc b2 # Esc b3 # ts' \<Rightarrow>
             if second4 b b1 \<and> continuation b2 \<and> continuation b3
             then map_option (\<lambda>s. char_of b # char_of b1 # char_of b2 # char_of b3 # s)
                    (utf8 ts')
             else None
         | _ \<Rightarrow> None)
      else None)"

definition decodeURIComponent :: "string \<Rightarrow> string option" where
  "decodeURIComponent s = (case tokens s of None \<Rightarrow> None | Some ts \<Rightarrow> utf8 ts)"

definition escapeSlashes :: "string \<Rightarrow> string" where
  "escapeSlashes s = concat (map (\<lambda>c. if isSlash c then ''%2F'' else [c]) s)"

definition decodeSegment :: "string \<Rightarrow> string option" where
  "decodeSegment s = map_option escapeSlashes (decodeURIComponent s)"

definition decodePath :: "string \<Rightarrow> string" where
  "decodePath v =
     (case those (map decodeSegment (splitSlash v)) of
        None \<Rightarrow> v
      | Some segments \<Rightarrow> joinSlash segments)"

subsection \<open>Matching one pattern\<close>

text \<open>
  The table uses two shapes of pattern: a static prefix followed by \<^verbatim>\<open>/*\<close>, and
  the static pattern \<^verbatim>\<open>/\<close>. Matching is modelled for patterns made of static
  segments with an optional trailing \<^verbatim>\<open>*\<close> (no \<^verbatim>\<open>:param\<close> segments: the table has
  none):
  \<^item> the static part of the pattern is the pattern without its trailing \<^verbatim>\<open>*\<close> and
    trailing slashes, with one leading slash; no \<^verbatim>\<open>Route\<close> of the table sets
    \<^verbatim>\<open>caseSensitive\<close>, so it is compared ignoring the case of ASCII letters;
  \<^item> after the static part, a pattern ending in \<^verbatim>\<open>*\<close> accepts a slash followed by
    one or more characters none of which is a line terminator (line feed,
    carriage return, U+2028, U+2029), or nothing but slashes (the patterns
    \<^verbatim>\<open>*\<close> and \<^verbatim>\<open>/*\<close> accept whatever follows);
  \<^item> any other pattern has to match to the end of the pathname, where trailing
    slashes are ignored.
  The router is mounted without a \<^verbatim>\<open>basename\<close>, so nothing is stripped from the
  pathname.
\<close>

definition toLowerCase :: "char \<Rightarrow> char" where
  "toLowerCase c =
     (let n = (of_char c :: nat) in if 65 \<le> n \<and> n \<le> 90 then char_of (n + 32) else c)"

fun hasLineTerminator :: "string \<Rightarrow> bool" where
  "hasLineTerminator [] = False"
| "hasLineTerminator (c # cs) =
     (c = CHR 0x0A \<or> c = CHR 0x0D \<or>
      (c = CHR 0xE2 \<and>
        (case cs of
           c1 # c2 # _ \<Rightarrow> c1 = CHR 0x80 \<and> (c2 = CHR 0xA8 \<or> c2 = CHR 0xA9)
         | _ \<Rightarrow> False)) \<or>
      hasLineTerminator cs)"

definition endsWithStar :: "string \<Rightarrow> bool" where
  "endsWithStar pattern = (case rev pattern of [] \<Rightarrow> False | c # _ \<Rightarrow> c = CHR ''*'')"

definition staticPart :: "string \<Rightarrow> string" where
  "staticPart pattern =
     (let noStar = (case rev pattern of [] \<Rightarrow> [] | c # r \<Rightarrow> if c = CHR ''*'' then r else c # r);
          noTrailing = rev (dropWhile isSlash noStar)
      in CHR ''/'' # dropWhile isSlash noTrailing)"

text \<open>
  \<open>stripStatic lit s\<close> consumes the static part \<open>lit\<close> from the front of \<open>s\<close>,
  ignoring case, and returns what is left of \<open>s\<close>; \<open>None\<close> when \<open>s\<close> does not
  begin with it.
\<close>

fun stripStatic :: "string \<Rightarrow> string \<Rightarrow> string option" where
  "stripStatic [] s = Some s"
| "stripStatic (c # cs) [] = None"
| "stripStatic (c # cs) (d # ds) =
     (if toLowerCase c = toLowerCase d then stripStatic cs ds else None)"

definition splatRest :: "string \<Rightarrow> bool" where
  "splatRest rest =
     ((case rest of [] \<Rightarrow> False | c # r \<Rightarrow> isSlash c \<and> r \<noteq> [] \<and> \<not> hasLineTerminator r) \<or>
      list_all isSlash rest)"

definition matchPath :: "string \<Rightarrow> string \<Rightarrow> bool" where
  "matchPath pattern pathname =
     (case stripStatic (staticPart pattern) pathname of
        None \<Rightarrow> False
      | Some rest \<Rightarrow>
          if endsWithStar pattern
          then (if pattern = ''*'' \<or> pattern = ''/*'' then True else splatRest rest)
          else list_all isSlash rest)"

subsection \<open>Ranking\<close>

text \<open>
  The router does not try the routes in the order they are written: it flattens
  them into branches, gives each branch a score computed from the segments of its
  path, and tries the branches by descending score, siblings of equal score in
  the order they were declared. The score counts the segments, subtracts 2 when
  one of them is \<^verbatim>\<open>*\<close>, and adds 1 for each empty segment and 10 for each other
  static segment.
\<close>

definition computeScore :: "string \<Rightarrow> int" where
  "computeScore p =
     (let segments = splitSlash p;
          initialScore = int (length segments) + (if ''*'' \<in> set segments then - 2 else 0)
      in foldl (\<lambda>score segment. score + (if segment = [] then 1 else 10))
           initialScore (filter (\<lambda>s. s \<noteq> ''*'') segments))"

record branch =
  score :: int
  childIndex :: nat
  branchRoute :: route

definition flattenRoutes :: "route list \<Rightarrow> branch list" where
  "flattenRoutes rs =
     map (\<lambda>(i, r). \<lparr>score = computeScore (path r), childIndex = i, branchRoute = r\<rparr>)
       (enumerate 0 rs)"

definition ranksBefore :: "branch \<Rightarrow> branch \<Rightarrow> bool" where
  "ranksBefore a b =
     (if score a \<noteq> score b then score b < score a else childIndex a \<le> childIndex b)"

fun insertBranch :: "branch \<Rightarrow> branch list \<Rightarrow> branch list" where
  "insertBranch a [] = [a]"
| "insertBranch a (b # bs) = (if ranksBefore a b then a # b # bs else b # insertBranch a bs)"

definition rankRouteBranches :: "branch list \<Rightarrow> branch list" where
  "rankRouteBranches bs = foldr insertBranch bs []"

text \<open>The first branch in rank order whose pattern matches the decoded pathname wins.\<close>

definition matchRoutes :: "route list \<Rightarrow> string \<Rightarrow> route option" where
  "matchRoutes rs pathname =
     (let decoded = decodePath pathname
      in map_option branchRoute
           (find (\<lambda>b. matchPath (path (branchRoute b)) decoded)
              (rankRouteBranches (flattenRoutes rs))))"

text \<open>\<^verbatim>\<open><Routes>\<close> renders the element of the matched route, and nothing when no route matches.\<close>

definition Routes :: "route list \<Rightarrow> string \<Rightarrow> node list" where
  "Routes rs pathname = (case matchRoutes rs pathname of None \<Rightarrow> [] | Some r \<Rightarrow> [element r])"

section \<open>The shell\<close>

definition header :: node where
  "header =
     Elem ''header''
       [Elem ''nav''
          [Link ''/projects'' [Text ''Projects''], Text '' | '',
           Link ''/tasks'' [Text ''Tasks''], Text '' | '',
           Link ''/chat'' [Text ''Chat''], Text '' | '',
           Link ''/login'' [Text ''Login'']]]"

definition AppLayout :: "string \<Rightarrow> node" where
  "AppLayout pathname =
     Elem ''div'' [header, Elem ''main'' (Routes routes pathname)]"

text \<open>
  Observations on a rendered tree: the tag and the children of a node, the
  content of a region of the layout (the children of the root's child elements
  with a given tag), and the links a tree contains, each with its target and
  its label.
\<close>

fun tagOf :: "node \<Rightarrow> string option" where
  "tagOf (Elem t children) = Some t"
| "tagOf (Link target children) = None"
| "tagOf (Text t) = None"
| "tagOf (Comp c) = None"

fun childrenOf :: "node \<Rightarrow> node list" where
  "childrenOf (Elem t children) = children"
| "childrenOf (Link target children) = children"
| "childrenOf (Text t) = []"
| "childrenOf (Comp c) = []"

definition region :: "string \<Rightarrow> node \<Rightarrow> node list" where
  "region t n = filter (\<lambda>c. tagOf c = Some t) (childrenOf n)"

definition mainContent :: "node \<Rightarrow> node list" where
  "mainContent n = concat (map childrenOf (region ''main'' n))"

fun linksOf :: "node \<Rightarrow> (string \<times> node list) list" where
  "linksOf (Elem t children) = concat (map linksOf children)"
| "linksOf (Link target children) = [(target, children)]"
| "linksOf (Text t) = []"
| "linksOf (Comp c) = []"

section \<open>Following a link\<close>

text \<open>
  \<^verbatim>\<open>App\<close> wraps the layout in a \<^verbatim>\<open>BrowserRouter\<close>, which renders it at the browser's
  location: a pathname, a search and a hash. An unmodified primary click on a
  \<^verbatim>\<open>Link\<close> makes the link's target the location. This is modelled for the kind of
  target the header has, a plain absolute path: one slash followed by letters,
  digits, hyphens, underscores and single slashes, which the router neither
  resolves nor the browser rewrites, and which carries no search and no hash.
  For any other target (relative, with dot segments, a search or a hash,
  percent-escapes, or a URL) and for a node that is not a link \<open>click\<close> gives
  \<open>None\<close>: it is not modelled. The session history, which no part of the
  layout reads, is left out.
\<close>

record browser =
  pathname :: string
  search :: string
  hash :: string

definition plainChar :: "char \<Rightarrow> bool" where
  "plainChar c =
     (let n = (of_char c :: nat) in
      (48 \<le> n \<and> n \<le> 57) \<or> (65 \<le> n \<and> n \<le> 90) \<or> (97 \<le> n \<and> n \<le> 122) \<or>
      c = CHR ''-'' \<or> c = CHR ''_'')"

fun plainSegments :: "string \<Rightarrow> bool" where
  "plainSegments [] = True"
| "plainSegments [c] = (plainChar c \<or> isSlash c)"
| "plainSegments (c # d # cs) =
     ((plainChar c \<or> (isSlash c \<and> \<not> isSlash d)) \<and> plainSegments (d # cs))"

definition plainPath :: "string \<Rightarrow> bool" where
  "plainPath target =
     (case target of
        [] \<Rightarrow> False
      | c # cs \<Rightarrow> isSlash c \<and> (case cs of [] \<Rightarrow> True | d # _ \<Rightarrow> \<not> isSlash d) \<and> plainSegments cs)"

fun click :: "node \<Rightarrow> browser \<Rightarrow> browser option" where
  "click (Link target children) b =
     (if plainPath target then Some \<lparr>pathname = target, search = [], hash = []\<rparr> else None)"
| "click (Elem t children) b = None"
| "click (Text t) b = None"
| "click (Comp c) b = None"

definition App :: "browser \<Rightarrow> node" where
  "App b = AppLayout (pathname b)"

definition mounted :: "browser \<Rightarrow> node list" where
  "mounted b = mainContent (App b)"

section \<open>The build configuration\<close>

text \<open>
  The configuration file exports one object literal passed through \<^verbatim>\<open>defineConfig\<close>,
  which returns its argument. The two plugins are calls of imported factories;
  \<^verbatim>\<open>react\<close> is given the list of Babel plugins, each entry a list (the plugin's name
  followed by its options), and \<^verbatim>\<open>tailwindcss\<close> is called without arguments.
\<close>

record babelOptions =
  babelPlugins :: "string list list"

datatype plugin = react babelOptions | tailwindcss

record compressOptions =
  drop_console :: bool

record terserOptions =
  compress :: compressOptions

record buildOptions =
  outDir :: string
  minify :: string
  terserOptions :: terserOptions
  chunkSizeWarningLimit :: nat

record userConfig =
  plugins :: "plugin list"
  build :: buildOptions

definition defineConfig :: "userConfig \<Rightarrow> userConfig" where
  "defineConfig config = config"

definition viteConfig :: userConfig where
  "viteConfig =
     defineConfig
       \<lparr>plugins =
          [react \<lparr>babelPlugins = [[''babel-plugin-react-compiler'']]\<rparr>,
           tailwindcss],
        build =
          \<lparr>outDir = ''build'',
           minify = ''terser'',
           terserOptions = \<lparr>compress = \<lparr>drop_console = True\<rparr>\<rparr>,
           chunkSizeWarningLimit = 2000\<rparr>\<rparr>"

section \<open>Reading the routing table\<close>

text \<open>
  Notions used to state what the shell does. A pattern matches a pathname, in
  the router's sense, when it matches the decoded pathname; \<open>matchingRoutes p\<close>
  are the entries of the table whose pattern matches \<open>p\<close>, whatever their rank.
  \<open>underPrefix pre d\<close> says, without reference to the matcher, that the decoded
  pathname \<open>d\<close> is the lower-case prefix \<open>pre\<close> written in any letter case, alone
  or continued by a slash and characters free of line terminators.
  \<open>linkDestinations n\<close> pairs the label of each link of \<open>n\<close> with the main
  region the layout renders at the link's target.
\<close>

definition routeMatches :: "string \<Rightarrow> string \<Rightarrow> bool" where
  "routeMatches pattern p = matchPath pattern (decodePath p)"

definition matchingRoutes :: "string \<Rightarrow> route list" where
  "matchingRoutes p = filter (\<lambda>r. routeMatches (path r) p) routes"

definition underPrefix :: "string \<Rightarrow> string \<Rightarrow> bool" where
  "underPrefix pre d =
     (map toLowerCase (take (length pre) d) = pre \<and>
      (case drop (length pre) d of
         [] \<Rightarrow> True
       | c # r \<Rightarrow> c = CHR ''/'' \<and> \<not> hasLineTerminator r))"

definition linkDestinations :: "node \<Rightarrow> (node list \<times> node list) list" where
  "linkDestinations n =
     map (\<lambda>(target, label). (label, mainContent (AppLayout target))) (linksOf n)"

section \<open>Properties of the matcher\<close>

lemma toLowerCase_other:
  "\<not> (65 \<le> (of_char c :: nat) \<and> (of_char c :: nat) \<le> 90) \<Longrightarrow> toLowerCase c = c"
  by (auto simp add: toLowerCase_def Let_def)

lemma toLowerCase_slash: "toLowerCase c = CHR ''/'' \<longleftrightarrow> c = CHR ''/''"
proof
  assume h: "toLowerCase c = CHR ''/''"
  show "c = CHR ''/''"
  proof (cases "65 \<le> (of_char c :: nat) \<and> (of_char c :: nat) \<le> 90")
    case True
    then have "toLowerCase c = char_of (of_char c + 32 :: nat)"
      by (simp add: toLowerCase_def Let_def)
    with h have "of_char (char_of (of_char c + 32 :: nat)) = (of_char (CHR ''/'') :: nat)"
      by simp
    with True show ?thesis by (simp add: of_char_of)
  next
    case False
    with h show ?thesis by (simp add: toLowerCase_other)
  qed
qed (simp add: toLowerCase_other)

lemma stripStatic_Cons_Some:
  "stripStatic (c # cs) s = Some r \<longleftrightarrow>
     (\<exists>d ds. s = d # ds \<and> toLowerCase d = toLowerCase c \<and> stripStatic cs ds = Some r)"
  by (cases s) auto

lemma stripStatic_take_drop:
  "stripStatic lit s =
     (if length lit \<le> length s \<and> map toLowerCase (take (length lit) s) = map toLowerCase lit
      then Some (drop (length lit) s) else None)"
  by (induction lit s rule: stripStatic.induct) auto

lemma staticPart_table:
  "staticPart ''/auth/*'' = ''/auth''" "staticPart ''/projects/*'' = ''/projects''"
  "staticPart ''/tasks/*'' = ''/tasks''" "staticPart ''/chat/*'' = ''/chat''"
  "staticPart ''/'' = ''/''"
  by (simp_all add: staticPart_def isSlash_def)

lemma endsWithStar_table:
  "endsWithStar ''/auth/*''" "endsWithStar ''/projects/*''"
  "endsWithStar ''/tasks/*''" "endsWithStar ''/chat/*''" "\<not> endsWithStar ''/''"
  by (simp_all add: endsWithStar_def)

lemma slashes_no_terminator: "list_all isSlash r \<Longrightarrow> \<not> hasLineTerminator r"
  by (induction r) (auto simp add: isSlash_def)

lemma splatRest_iff:
  "splatRest rest \<longleftrightarrow>
     (case rest of [] \<Rightarrow> True | c # r \<Rightarrow> c = CHR ''/'' \<and> \<not> hasLineTerminator r)"
proof (cases rest)
  case Nil
  then show ?thesis by (simp add: splatRest_def)
next
  case (Cons c r)
  then show ?thesis
    using slashes_no_terminator[of r]
    by (cases r) (auto simp add: splatRest_def isSlash_def)
qed

lemma map_take_length: "map f (take n s) = lit \<Longrightarrow> length lit = n \<Longrightarrow> n \<le> length s"
  by (metis length_map length_take min.absorb_iff2 min.commute)

lemma matchPath_auth: "matchPath ''/auth/*'' d \<longleftrightarrow> underPrefix ''/auth'' d"
  using map_take_length[of toLowerCase 5 d "''/auth''"]
  by (auto simp add: matchPath_def staticPart_table endsWithStar_table stripStatic_take_drop
      splatRest_iff underPrefix_def toLowerCase_other)

lemma matchPath_projects: "matchPath ''/projects/*'' d \<longleftrightarrow> underPrefix ''/projects'' d"
  using map_take_length[of toLowerCase 9 d "''/projects''"]
  by (auto simp add: matchPath_def staticPart_table endsWithStar_table stripStatic_take_drop
      splatRest_iff underPrefix_def toLowerCase_other)

lemma matchPath_tasks: "matchPath ''/tasks/*'' d \<longleftrightarrow> underPrefix ''/tasks'' d"
  using map_take_length[of toLowerCase 6 d "''/tasks''"]
  by (auto simp add: matchPath_def staticPart_table endsWithStar_table stripStatic_take_drop
      splatRest_iff underPrefix_def toLowerCase_other)

lemma matchPath_chat: "matchPath ''/chat/*'' d \<longleftrightarrow> underPrefix ''/chat'' d"
  using map_take_length[of toLowerCase 5 d "''/chat''"]
  by (auto simp add: matchPath_def staticPart_table endsWithStar_table stripStatic_take_drop
      splatRest_iff underPrefix_def toLowerCase_other)

lemma matchPath_root: "matchPath ''/'' d \<longleftrightarrow> d \<noteq> [] \<and> list_all isSlash d"
proof (cases d)
  case Nil
  then show ?thesis by (simp add: matchPath_def staticPart_table)
next
  case (Cons c cs)
  have "toLowerCase CHR ''/'' = toLowerCase c \<longleftrightarrow> c = CHR ''/''"
    using toLowerCase_slash[of c] by (auto simp add: toLowerCase_other)
  with Cons show ?thesis
    by (simp add: matchPath_def staticPart_table endsWithStar_table isSlash_def)
qed

text \<open>
  The four prefixes differ in the character after the first slash, and the
  \<^verbatim>\<open>/\<close> entry wants a slash there or nothing: no pathname matches two entries.
\<close>

lemma exclusive_splats:
  "matchPath ''/auth/*'' d \<Longrightarrow> \<not> matchPath ''/projects/*'' d"
  "matchPath ''/auth/*'' d \<Longrightarrow> \<not> matchPath ''/tasks/*'' d"
  "matchPath ''/auth/*'' d \<Longrightarrow> \<not> matchPath ''/chat/*'' d"
  "matchPath ''/projects/*'' d \<Longrightarrow> \<not> matchPath ''/tasks/*'' d"
  "matchPath ''/projects/*'' d \<Longrightarrow> \<not> matchPath ''/chat/*'' d"
  "matchPath ''/tasks/*'' d \<Longrightarrow> \<not> matchPath ''/chat/*'' d"
  by (auto simp add: matchPath_def staticPart_table endsWithStar_table stripStatic_Cons_Some
      toLowerCase_other split: option.splits)

lemma exclusive_root:
  "matchPath ''/auth/*'' d \<Longrightarrow> \<not> matchPath ''/'' d"
  "matchPath ''/projects/*'' d \<Longrightarrow> \<not> matchPath ''/'' d"
  "matchPath ''/tasks/*'' d \<Longrightarrow> \<not> matchPath ''/'' d"
  "matchPath ''/chat/*'' d \<Longrightarrow> \<not> matchPath ''/'' d"
  by (auto simp add: matchPath_def staticPart_table endsWithStar_table stripStatic_Cons_Some
      toLowerCase_other isSlash_def split: option.splits)

text \<open>
  The four splat entries score 12 each and the \<^verbatim>\<open>/\<close> entry 4, so ranking keeps
  the order in which the routes are declared.
\<close>

lemma ranked_routes: "map branchRoute (rankRouteBranches (flattenRoutes routes)) = routes"
  by code_simp

lemma find_map: "map_option f (find (\<lambda>b. P (f b)) bs) = find P (map f bs)"
  by (induction bs) auto

lemma matchRoutes_routes: "matchRoutes routes p = find (\<lambda>r. routeMatches (path r) p) routes"
  unfolding matchRoutes_def Let_def routeMatches_def
    find_map[of branchRoute "\<lambda>r. matchPath (path r) (decodePath p)"] ranked_routes ..

lemma Routes_chain:
  "Routes routes p =
     (if routeMatches ''/auth/*'' p then [Comp UserAuthRoutes]
      else if routeMatches ''/projects/*'' p then [Comp ProjectsRoutes]
      else if routeMatches ''/tasks/*'' p then [Comp TasksRoutes]
      else if routeMatches ''/chat/*'' p then [Comp ChatRoutes]
      else if routeMatches ''/'' p then [welcomeHeading]
      else [])"
  unfolding Routes_def matchRoutes_routes by (simp add: routes_def)

lemma mainContent_AppLayout: "mainContent (AppLayout p) = Routes routes p"
  by (simp add: mainContent_def region_def AppLayout_def header_def)

lemma matchingRoutes_chain:
  "matchingRoutes p =
     (if routeMatches ''/auth/*'' p then [\<lparr>path = ''/auth/*'', element = Comp UserAuthRoutes\<rparr>]
      else if routeMatches ''/projects/*'' p
        then [\<lparr>path = ''/projects/*'', element = Comp ProjectsRoutes\<rparr>]
      else if routeMatches ''/tasks/*'' p then [\<lparr>path = ''/tasks/*'', element = Comp TasksRoutes\<rparr>]
      else if routeMatches ''/chat/*'' p then [\<lparr>path = ''/chat/*'', element = Comp ChatRoutes\<rparr>]
      else if routeMatches ''/'' p then [\<lparr>path = ''/'', element = welcomeHeading\<rparr>]
      else [])"
  using exclusive_splats[of "decodePath p"] exclusive_root[of "decodePath p"]
  by (auto simp add: matchingRoutes_def routes_def routeMatches_def)

subsection \<open>Decoding, slashes and segments\<close>

lemma splitSlash_nonempty: "splitSlash s \<noteq> []"
  by (induction s) (auto split: list.splits)

lemma joinSlash_Cons_Cons: "joinSlash ((c # t) # ss) = c # joinSlash (t # ss)"
  by (cases ss) simp_all

lemma join_split: "joinSlash (splitSlash s) = s"
proof (induction s)
  case Nil
  then show ?case by simp
next
  case (Cons c cs)
  obtain t ss where ts: "splitSlash cs = t # ss"
    using splitSlash_nonempty[of cs] by (cases "splitSlash cs") auto
  with Cons show ?case
    by (auto simp add: isSlash_def joinSlash_Cons_Cons)
qed


lemma split_noSlash: "\<forall>s \<in> set (splitSlash p). list_all (\<lambda>c. \<not> isSlash c) s"
  by (induction p) (auto split: list.splits)

lemma joinSlash_slashes:
  "list_all isSlash (joinSlash ds) \<longleftrightarrow> (\<forall>d \<in> set ds. list_all isSlash d)"
  by (induction ds rule: joinSlash.induct) (auto simp add: isSlash_def)

lemma noSlash_slashes: "list_all (\<lambda>c. \<not> isSlash c) d \<Longrightarrow> list_all isSlash d \<longleftrightarrow> d = []"
  by (cases d) auto

lemma slashes_segments: "list_all isSlash p \<longleftrightarrow> (\<forall>s \<in> set (splitSlash p). s = [])"
proof -
  have "list_all isSlash p \<longleftrightarrow> list_all isSlash (joinSlash (splitSlash p))"
    by (simp add: join_split)
  also have "\<dots> \<longleftrightarrow> (\<forall>s \<in> set (splitSlash p). list_all isSlash s)"
    by (rule joinSlash_slashes)
  also have "\<dots> \<longleftrightarrow> (\<forall>s \<in> set (splitSlash p). s = [])"
    using split_noSlash[of p] noSlash_slashes by blast
  finally show ?thesis .
qed

lemma tokens_Nil: "tokens s = Some [] \<longleftrightarrow> s = []"
  by (cases s) (auto split: list.splits option.splits)

lemma utf8_Nil: "utf8 ts = Some [] \<longleftrightarrow> ts = []"
  by (cases ts rule: utf8.cases) (auto split: list.splits token.splits)

lemma escapeSlashes_Nil: "escapeSlashes u = [] \<longleftrightarrow> u = []"
  by (cases u) (auto simp add: escapeSlashes_def)

lemma escapeSlashes_noSlash: "list_all (\<lambda>c. \<not> isSlash c) (escapeSlashes u)"
  by (induction u) (auto simp add: escapeSlashes_def isSlash_def)

lemma decodeSegment_Some:
  "decodeSegment s = Some d \<Longrightarrow> (d = [] \<longleftrightarrow> s = []) \<and> list_all (\<lambda>c. \<not> isSlash c) d"
  using tokens_Nil[of s]
  by (auto simp add: decodeSegment_def decodeURIComponent_def utf8_Nil escapeSlashes_Nil
      escapeSlashes_noSlash split: option.splits)

lemma those_map_Some:
  "those (map f xs) = Some ys \<Longrightarrow> list_all2 (\<lambda>x y. f x = Some y) xs ys"
  by (induction xs arbitrary: ys) (auto split: option.splits)

lemma decoded_segments_empty:
  "list_all2 (\<lambda>s d. decodeSegment s = Some d) segs ds \<Longrightarrow>
     (\<forall>d \<in> set ds. list_all isSlash d) \<longleftrightarrow> (\<forall>s \<in> set segs. s = [])"
proof (induction rule: list_all2_induct)
  case Nil
  then show ?case by simp
next
  case (Cons s segs d ds)
  from decodeSegment_Some[OF Cons.hyps(1)] noSlash_slashes[of d]
  have "list_all isSlash d \<longleftrightarrow> s = []" by blast
  with Cons.IH show ?case by simp
qed

lemma decoded_segments_same:
  "list_all2 (\<lambda>s d. decodeSegment s = Some d) segs ds \<Longrightarrow> \<forall>s \<in> set segs. s = [] \<Longrightarrow> ds = segs"
proof (induction rule: list_all2_induct)
  case Nil
  then show ?case by simp
next
  case (Cons s segs d ds)
  from decodeSegment_Some[OF Cons.hyps(1)] Cons.prems have "d = s" by simp
  with Cons show ?case by simp
qed

lemma decodePath_slashes: "list_all isSlash (decodePath p) \<longleftrightarrow> list_all isSlash p"
proof (cases "those (map decodeSegment (splitSlash p))")
  case None
  then show ?thesis by (simp add: decodePath_def)
next
  case (Some ds)
  from those_map_Some[OF Some] decoded_segments_empty
  have "(\<forall>d \<in> set ds. list_all isSlash d) \<longleftrightarrow> (\<forall>s \<in> set (splitSlash p). s = [])"
    by blast
  with Some show ?thesis
    by (simp add: decodePath_def joinSlash_slashes slashes_segments[of p])
qed

lemma decodePath_of_slashes: "list_all isSlash p \<Longrightarrow> decodePath p = p"
proof (cases "those (map decodeSegment (splitSlash p))")
  case None
  then show ?thesis by (simp add: decodePath_def)
next
  case (Some ds)
  assume "list_all isSlash p"
  then have "\<forall>s \<in> set (splitSlash p). s = []" by (simp add: slashes_segments)
  from decoded_segments_same[OF those_map_Some[OF Some] this] Some show ?thesis
    by (simp add: decodePath_def join_split)
qed

lemma routeMatches_root: "routeMatches ''/'' p \<longleftrightarrow> p \<noteq> [] \<and> list_all isSlash p"
  using decodePath_slashes[of p] decodePath_of_slashes[of p]
  by (auto simp add: routeMatches_def matchPath_root)





section \<open>The navigation shell\<close>

text \<open>
  Claim C1, as amended. For every pathname the main region holds the element
  of the table entry the router matches it to: the authentication, projects,
  tasks or chat route tree when the decoded pathname lies under the entry's
  prefix, the welcome heading when the pathname is \<^verbatim>\<open>/\<close> or any other non-empty
  run of slashes, and nothing otherwise. The remaining conjuncts spell the
  entries out: a splat entry matches when the decoded pathname is its prefix,
  in any letter case, alone or continued by a slash and characters free of
  line terminators; the \<^verbatim>\<open>/\<close> entry, matched to the end with trailing slashes
  ignored, matches exactly the non-empty pathnames made of slashes.
\<close>

theorem shell_dispatch:
  "mainContent (AppLayout p) =
     (if routeMatches ''/auth/*'' p then [Comp UserAuthRoutes]
      else if routeMatches ''/projects/*'' p then [Comp ProjectsRoutes]
      else if routeMatches ''/tasks/*'' p then [Comp TasksRoutes]
      else if routeMatches ''/chat/*'' p then [Comp ChatRoutes]
      else if p \<noteq> [] \<and> list_all isSlash p then [welcomeHeading]
      else []) \<and>
   routeMatches ''/auth/*'' p = underPrefix ''/auth'' (decodePath p) \<and>
   routeMatches ''/projects/*'' p = underPrefix ''/projects'' (decodePath p) \<and>
   routeMatches ''/tasks/*'' p = underPrefix ''/tasks'' (decodePath p) \<and>
   routeMatches ''/chat/*'' p = underPrefix ''/chat'' (decodePath p) \<and>
   routeMatches ''/'' p = (p \<noteq> [] \<and> list_all isSlash p)"
  by (simp add: mainContent_AppLayout Routes_chain routeMatches_root matchPath_auth
      matchPath_projects matchPath_tasks matchPath_chat routeMatches_def[of "''/auth/*''"]
      routeMatches_def[of "''/projects/*''"] routeMatches_def[of "''/tasks/*''"]
      routeMatches_def[of "''/chat/*''"])

text \<open>
  The claim C1 as worded keeps the welcome heading to the exact path \<^verbatim>\<open>/\<close> and
  leaves every other path outside the four prefixes blank. The pathname \<^verbatim>\<open>//\<close>
  is not \<^verbatim>\<open>/\<close>, lies under none of the four prefixes, and renders the welcome
  heading.
\<close>

theorem double_slash_renders_welcome:
  "mainContent (AppLayout ''//'') = [welcomeHeading] \<and>
   ''//'' \<noteq> ''/'' \<and>
   \<not> routeMatches ''/auth/*'' ''//'' \<and>
   \<not> routeMatches ''/projects/*'' ''//'' \<and>
   \<not> routeMatches ''/tasks/*'' ''//'' \<and>
   \<not> routeMatches ''/chat/*'' ''//''"
  by code_simp

text \<open>
  Claim C2, as amended. No pathname matches two entries of the table, and the
  main region holds exactly the elements of the matching entries: at most one
  subtree is active, and a pathname that matches no entry has none.
\<close>

theorem at_most_one_subtree:
  "length (matchingRoutes p) \<le> 1 \<and>
   mainContent (AppLayout p) = map element (matchingRoutes p)"
  by (simp add: mainContent_AppLayout Routes_chain matchingRoutes_chain)

text \<open>
  The claim C2 as worded asks for exactly one active subtree at every path. At
  \<^verbatim>\<open>/unknown\<close> the main region is empty.
\<close>

theorem unknown_path_has_no_subtree:
  "mainContent (AppLayout ''/unknown'') = [] \<and>
   length (mainContent (AppLayout ''/unknown'')) \<noteq> 1"
  by code_simp

text \<open>
  Claim C3. At a pathname the router matches to \<^verbatim>\<open>/projects/*\<close> the main region
  holds the projects delegate and nothing else.
\<close>

theorem projects_only:
  "routeMatches ''/projects/*'' p \<Longrightarrow> mainContent (AppLayout p) = [Comp ProjectsRoutes]"
  using exclusive_splats[of "decodePath p"]
  by (auto simp add: mainContent_AppLayout Routes_chain routeMatches_def)

theorem projects_only_witness:
  "routeMatches ''/projects/*'' ''/projects/42/edit'' \<and>
   mainContent (AppLayout ''/projects/42/edit'') = [Comp ProjectsRoutes] \<and>
   routeMatches ''/projects/*'' ''/%70rojects/1'' \<and>
   mainContent (AppLayout ''/%70rojects/1'') = [Comp ProjectsRoutes]"
proof -
  have h: "routeMatches ''/projects/*'' ''/projects/42/edit''" by code_simp
  have k: "routeMatches ''/projects/*'' ''/%70rojects/1''" by code_simp
  show ?thesis using h k projects_only[OF h] projects_only[OF k] by blast
qed

text \<open>
  Claim C4. A pathname that the router matches to none of the five entries
  leaves the main region empty: the layout is the header and an empty \<^verbatim>\<open>main\<close>.
  No entry of the table stands in for the unmatched paths.
\<close>

theorem unmatched_renders_blank:
  "matchingRoutes p = [] \<Longrightarrow>
     mainContent (AppLayout p) = [] \<and> AppLayout p = Elem ''div'' [header, Elem ''main'' []]"
proof -
  assume "matchingRoutes p = []"
  then have "Routes routes p = []"
    unfolding Routes_chain matchingRoutes_chain by (simp split: if_splits)
  then show ?thesis
    using mainContent_AppLayout[of p] by (simp add: AppLayout_def)
qed

theorem unmatched_renders_blank_witness:
  "matchingRoutes ''/unknown'' = [] \<and>
   mainContent (AppLayout ''/unknown'') = [] \<and>
   AppLayout ''/unknown'' = Elem ''div'' [header, Elem ''main'' []] \<and>
   matchingRoutes ''/auth/a%0Ab'' = [] \<and>
   mainContent (AppLayout ''/auth/a%0Ab'') = []"
proof -
  have h: "matchingRoutes ''/unknown'' = []" by code_simp
  have k: "matchingRoutes ''/auth/a%0Ab'' = []" by code_simp
  show ?thesis using h k unmatched_renders_blank[OF h] unmatched_renders_blank[OF k] by blast
qed

text \<open>
  Claim C5. At the pathname \<^verbatim>\<open>/\<close> the main region holds the welcome heading and
  nothing else; in particular no feature delegate.
\<close>

theorem root_renders_welcome:
  "mainContent (AppLayout ''/'') =
     [Elem ''h2'' [Text ''Welcome to your Project Management App!'']] \<and>
   Comp c \<notin> set (mainContent (AppLayout ''/''))"
proof -
  have "mainContent (AppLayout ''/'') =
     [Elem ''h2'' [Text ''Welcome to your Project Management App!'']]"
    by code_simp
  then show ?thesis by simp
qed



section \<open>The header\<close>

text \<open>
  Claim C8. At every pathname the layout is the header followed by the main
  region, and the header is the same element whatever the pathname. It holds
  four links, labelled Projects, Tasks, Chat and Login. Followed one by one, the
  first three lead to their sections; the Login link leads to \<^verbatim>\<open>/login\<close>, where
  the main region is empty, so no link of the header mounts the authentication
  route tree.
\<close>

theorem header_links_miss_auth:
  "region ''header'' (AppLayout p) = [header] \<and>
   region ''header'' (AppLayout p) = region ''header'' (AppLayout q) \<and>
   AppLayout p = Elem ''div'' [header, Elem ''main'' (mainContent (AppLayout p))] \<and>
   linksOf header =
     [(''/projects'', [Text ''Projects'']), (''/tasks'', [Text ''Tasks'']),
      (''/chat'', [Text ''Chat'']), (''/login'', [Text ''Login''])] \<and>
   linkDestinations header =
     [([Text ''Projects''], [Comp ProjectsRoutes]), ([Text ''Tasks''], [Comp TasksRoutes]),
      ([Text ''Chat''], [Comp ChatRoutes]), ([Text ''Login''], [])]"
proof -
  have "region ''header'' (AppLayout r) = [header]" for r
    by (simp add: region_def AppLayout_def header_def)
  moreover have "AppLayout p = Elem ''div'' [header, Elem ''main'' (mainContent (AppLayout p))]"
    unfolding mainContent_AppLayout by (simp add: AppLayout_def)
  moreover have "linksOf header =
     [(''/projects'', [Text ''Projects'']), (''/tasks'', [Text ''Tasks'']),
      (''/chat'', [Text ''Chat'']), (''/login'', [Text ''Login''])]"
    by (simp add: header_def)
  moreover have "linkDestinations header =
     [([Text ''Projects''], [Comp ProjectsRoutes]), ([Text ''Tasks''], [Comp TasksRoutes]),
      ([Text ''Chat''], [Comp ChatRoutes]), ([Text ''Login''], [])]"
    by code_simp
  ultimately show ?thesis by simp
qed

text \<open>
  Claim C10. The header's Login link has the target \<^verbatim>\<open>/login\<close>. No entry of the
  table matches that pathname, the authentication entry \<^verbatim>\<open>/auth/*\<close> included, so
  after a click on the link the main region is empty.
\<close>

theorem login_link_renders_blank:
  "(''/login'', [Text ''Login'']) \<in> set (linksOf (AppLayout p)) \<and>
   \<not> matchPath ''/auth/*'' ''/login'' \<and>
   matchingRoutes ''/login'' = [] \<and>
   mainContent (AppLayout ''/login'') = [] \<and>
   map_option mounted (click (Link ''/login'' [Text ''Login'']) b) = Some []"
proof -
  have links: "(''/login'', [Text ''Login'']) \<in> set (linksOf (AppLayout p))"
    by (simp add: AppLayout_def header_def)
  have no_auth: "\<not> matchPath ''/auth/*'' ''/login''" by code_simp
  have none: "matchingRoutes ''/login'' = []" by code_simp
  have blank: "mainContent (AppLayout ''/login'') = []" by code_simp
  have plain: "plainPath ''/login''" by code_simp
  then have "map_option mounted (click (Link ''/login'' [Text ''Login'']) b) =
      Some (mainContent (AppLayout ''/login''))"
    by (simp add: mounted_def App_def)
  with links no_auth none blank show ?thesis by simp
qed

section \<open>The build configuration, as selected\<close>

text \<open>
  Claim C9. The exported configuration is the object the file writes down: the
  React plugin with the Babel plugin \<^verbatim>\<open>babel-plugin-react-compiler\<close> and the
  Tailwind plugin, in this order; output directory \<^verbatim>\<open>build\<close>, minifier \<^verbatim>\<open>terser\<close>,
  \<^verbatim>\<open>drop_console\<close> set, and a chunk size warning limit of 2000.
\<close>

theorem build_configuration:
  "plugins viteConfig = [react \<lparr>babelPlugins = [[''babel-plugin-react-compiler'']]\<rparr>, tailwindcss] \<and>
   outDir (build viteConfig) = ''build'' \<and>
   minify (build viteConfig) = ''terser'' \<and>
   drop_console (compress (terserOptions (build viteConfig))) = True \<and>
   chunkSizeWarningLimit (build viteConfig) = 2000"
  by (simp add: viteConfig_def defineConfig_def)

end
